theory Spec2Isabelle
  imports Main
begin

section \<open>Values, errors and push streams\<close>

text \<open>
  The request-state classes of signal-tools are state machines over a few reactive cells
  (Angular signals) and push streams (rxjs subjects). A signal is modelled by its current
  content, a computed signal by a function of the contents it reads, and every method by a
  function from the object's state to its new state (and its return value). JavaScript is
  single threaded, but a subject notifies its subscribers from inside \<^verbatim>\<open>next\<close>,
  \<^verbatim>\<open>error\<close> and \<^verbatim>\<open>complete\<close>, so a callback of an outside subscriber runs in the middle
  of the method that emits, sees the cells as they are then, and may call \<^verbatim>\<open>cancel\<close> on
  the object. For the two AsyncRequestState classes these callbacks are part of the
  model; WritableRequestState is modelled with its methods running undisturbed.
\<close>

text \<open>An \<^verbatim>\<open>Error\<close> instance: its class and its message.\<close>

datatype Error = Error string | CancelledError string | EmptyError

text \<open>
  A value of type \<^verbatim>\<open>unknown\<close> that can be raised on a stream: \<^verbatim>\<open>undefined\<close>, an
  Error instance, or some other value (a string stands for those).
\<close>

datatype unknown = Undefined | Instance Error | Other string

text \<open>
  What a call can throw: the TypeError of calling \<^verbatim>\<open>undefined\<close>, or whatever a function
  handed in by the caller throws. A call that may throw returns a value of
  \<open>exception + 'a\<close>.
\<close>

datatype exception = TypeError | Thrown unknown

type_synonym outcome = "exception + bool"

text \<open>
  \<^verbatim>\<open>parseError\<close> of the package ts-tools is not part of the repository; the methods that
  call it take it as their first argument.
\<close>

type_synonym normalizer = "unknown \<Rightarrow> Error"

text \<open>
  Modelled from the spec: the error normalization utility \<^verbatim>\<open>parseError\<close> (package
  ts-tools, absent from the sources), "turn any thrown value into a canonical Error":
  an Error instance is already canonical, every other value is wrapped into a plain Error.
  It is only used to evaluate the methods at concrete inputs.
\<close>

definition parseError :: normalizer where
  "parseError u = (case u of Instance e \<Rightarrow> e | Other s \<Rightarrow> Error s | Undefined \<Rightarrow> Error ''undefined'')"


datatype 'a notification = Next 'a | Raise unknown | Complete

text \<open>
  Modelled from the spec: the push stream primitive (rxjs \<^verbatim>\<open>Subject\<close> and
  \<^verbatim>\<open>ReplaySubject\<close>, absent from the sources): multi-value emission, a single terminal
  error or a single terminal completion, nothing after the terminal notification.
  \<open>observed\<close> is the sequence of notifications the subject has passed on; a replaying
  subject hands exactly this sequence to every subscriber, whenever it subscribes.
  \<open>closed\<close> is only set by unsubscribing the subject itself, which no class here does.
\<close>

record 'a Subject =
  observed :: "'a notification list"
  isStopped :: bool
  closed :: bool

definition Subject_new :: "'a Subject" where
  "Subject_new = \<lparr>observed = [], isStopped = False, closed = False\<rparr>"

definition Subject_next :: "'a \<Rightarrow> 'a Subject \<Rightarrow> 'a Subject" where
  "Subject_next v s = (if isStopped s then s else s\<lparr>observed := observed s @ [Next v]\<rparr>)"

definition Subject_error :: "unknown \<Rightarrow> 'a Subject \<Rightarrow> 'a Subject" where
  "Subject_error e s =
     (if isStopped s then s else s\<lparr>observed := observed s @ [Raise e], isStopped := True\<rparr>)"

definition Subject_complete :: "'a Subject \<Rightarrow> 'a Subject" where
  "Subject_complete s =
     (if isStopped s then s else s\<lparr>observed := observed s @ [Complete], isStopped := True\<rparr>)"

text \<open>
  The optional argument of \<^verbatim>\<open>cancel(error?: string | Error | (() => Error))\<close>. A
  function handed in returns an Error or throws.
\<close>

datatype reason = Omitted | Message string | Thunk "unit \<Rightarrow> exception + Error" | Given Error

text \<open>
  \<^verbatim>\<open>const fullError = isString(error) ? new CancelledError(error)
       : isFunction(error) ? error() : error;\<close>
  When \<^verbatim>\<open>error()\<close> throws, so does the evaluation.
\<close>

definition fullError :: "reason \<Rightarrow> exception + unknown" where
  "fullError r = (case r of
       Message m \<Rightarrow> Inr (Instance (CancelledError m))
     | Thunk f \<Rightarrow> (case f () of Inl x \<Rightarrow> Inl x | Inr e \<Rightarrow> Inr (Instance e))
     | Given e \<Rightarrow> Inr (Instance e)
     | Omitted \<Rightarrow> Inr Undefined)"

text \<open>
  An outside subscriber of \<^verbatim>\<open>request$\<close> (attached by \<^verbatim>\<open>then\<close>, \<^verbatim>\<open>catch\<close>, \<^verbatim>\<open>finally\<close> or
  \<^verbatim>\<open>subscribe\<close>) and what its callbacks do when they are notified: nothing, read the
  signals, or read the signals and call \<^verbatim>\<open>cancel\<close> on the object (an exception thrown
  inside a callback does not reach the method that emits). The callback of
  \<^verbatim>\<open>st.then(v => st.cancel('stop'))\<close> is \<open>on_next = CallCancel (Message ''stop'')\<close>, those
  of \<^verbatim>\<open>st.finally(() => st.cancel())\<close> are \<open>on_error = on_complete = CallCancel Omitted\<close>.
\<close>

datatype reaction = Ignore | Look | CallCancel reason

record callbacks =
  on_next :: reaction
  on_error :: reaction
  on_complete :: reaction

definition no_callbacks :: callbacks where
  "no_callbacks = \<lparr>on_next = Ignore, on_error = Ignore, on_complete = Ignore\<rparr>"

text \<open>
  The subscribers of \<^verbatim>\<open>st.then(v => st.cancel(r))\<close>, of \<^verbatim>\<open>st.finally(() => st.cancel(r))\<close>
  and of \<^verbatim>\<open>st.then(v => ...)\<close> with a callback that reads the signals of \<^verbatim>\<open>st\<close>.
  \<^verbatim>\<open>then\<close> hands the first value to its callback; \<^verbatim>\<open>finally\<close> calls its callback on the
  error and on the completion.
\<close>

definition then_cancels :: "reason \<Rightarrow> callbacks" where
  "then_cancels r = \<lparr>on_next = CallCancel r, on_error = Ignore, on_complete = Ignore\<rparr>"

definition finally_cancels :: "reason \<Rightarrow> callbacks" where
  "finally_cancels r = \<lparr>on_next = Ignore, on_error = CallCancel r, on_complete = CallCancel r\<rparr>"

definition then_looks :: callbacks where
  "then_looks = \<lparr>on_next = Look, on_error = Ignore, on_complete = Ignore\<rparr>"

text \<open>
  What one run of a callback saw and got: the signals as it read them, and the value its
  call of \<^verbatim>\<open>cancel\<close> returned (or the exception it threw), if it made one.
\<close>

record 'a entry =
  seen_result :: "'a option"
  seen_loading :: bool
  seen_error :: "Error option"
  returned :: "outcome option"

section \<open>WritableRequestState\<close>

record 'a WritableRequestState =
  wr_completed :: bool
  wr_request :: "'a Subject"
  wr_result_chan :: "'a Subject"
  wr_result :: "'a option"
  wr_loading :: bool
  wr_error :: "Error option"
  wr_cancelled :: bool
  wr_cancelled_chan :: "bool Subject"
  wr_onCancel :: bool
  wr_onCancel_calls :: nat

text \<open>
  \<open>wr_onCancel\<close> tells whether the constructor was given the \<^verbatim>\<open>onCancel\<close> callback,
  \<open>wr_onCancel_calls\<close> counts its invocations.
\<close>

definition WritableRequestState_new :: "bool \<Rightarrow> 'a WritableRequestState" where
  "WritableRequestState_new onCancel =
     \<lparr>wr_completed = False, wr_request = Subject_new, wr_result_chan = Subject_new,
      wr_result = None, wr_loading = True, wr_error = None, wr_cancelled = False,
      wr_cancelled_chan = Subject_new, wr_onCancel = onCancel, wr_onCancel_calls = 0\<rparr>"

definition wr_failed :: "'a WritableRequestState \<Rightarrow> bool" where
  "wr_failed s = (wr_error s \<noteq> None)"

definition setError :: "normalizer \<Rightarrow> unknown \<Rightarrow> 'a WritableRequestState \<Rightarrow> 'a WritableRequestState" where
  "setError parse e s =
     (if wr_completed s then s
      else s\<lparr>wr_completed := True,
             wr_request := Subject_error e (wr_request s),
             wr_result_chan := Subject_complete (wr_result_chan s),
             wr_loading := False,
             wr_error := Some (parse e)\<rparr>)"

definition setValue :: "'a \<Rightarrow> 'a WritableRequestState \<Rightarrow> 'a WritableRequestState" where
  "setValue v s =
     (if wr_completed s then s
      else s\<lparr>wr_completed := True,
             wr_request := Subject_complete (Subject_next v (wr_request s)),
             wr_loading := False,
             wr_result := Some v\<rparr>)"

definition WritableRequestState_cancel ::
  "normalizer \<Rightarrow> reason \<Rightarrow> 'a WritableRequestState \<Rightarrow> outcome \<times> 'a WritableRequestState" where
  "WritableRequestState_cancel parse r s =
     (if wr_completed s then (Inr False, s)
      else (case fullError r of
              Inl x \<Rightarrow> (Inl x, s)
            | Inr e \<Rightarrow>
                let s1 = setError parse e s;
                    s2 = s1\<lparr>wr_cancelled := True,
                            wr_cancelled_chan := Subject_complete (Subject_next True (wr_cancelled_chan s1))\<rparr>;
                    s3 = (if wr_onCancel s2 then s2\<lparr>wr_onCancel_calls := Suc (wr_onCancel_calls s2)\<rparr> else s2)
                in (Inr True, s3)))"

section \<open>AsyncRequestState with the completion latch (unnamed/part_004)\<close>

record 'a AsyncRequestState =
  as_completed :: bool
  as_request :: "'a Subject"
  as_result_chan :: "'a Subject"
  as_result :: "'a option"
  as_loading :: bool
  as_error :: "Error option"
  as_sub_closed :: bool

text \<open>
  \<open>as_sub_closed\<close> is \<^verbatim>\<open>this.sub.closed\<close>: the subscription to the wrapped source is
  closed by its terminal notification and by \<^verbatim>\<open>unsubscribe()\<close>.
\<close>

definition AsyncRequestState_new :: "'a AsyncRequestState" where
  "AsyncRequestState_new =
     \<lparr>as_completed = False, as_request = Subject_new, as_result_chan = Subject_new,
      as_result = None, as_loading = True, as_error = None, as_sub_closed = False\<rparr>"

definition as_failed :: "'a AsyncRequestState \<Rightarrow> bool" where
  "as_failed s = (as_error s \<noteq> None)"

definition as_entry :: "'a AsyncRequestState \<Rightarrow> outcome option \<Rightarrow> 'a entry" where
  "as_entry s out =
     \<lparr>seen_result = as_result s, seen_loading = as_loading s, seen_error = as_error s,
      returned = out\<rparr>"

text \<open>
  \<^verbatim>\<open>cancel\<close> and \<^verbatim>\<open>onError\<close>, with \<^verbatim>\<open>this._request$.error(error)\<close> between the setting of
  the latch and the remaining writes of \<^verbatim>\<open>onError\<close>: the subject, unless it has stopped,
  notifies the outside subscriber, whose callback runs there (\<open>as_react\<close>) and may call
  \<^verbatim>\<open>cancel\<close> in turn. Every function returns the entries of the callbacks that ran with
  the new state. When the function handed to \<^verbatim>\<open>cancel\<close> throws, \<^verbatim>\<open>this.sub.unsubscribe()\<close>
  has already run.
\<close>

function AsyncRequestState_cancel ::
    "normalizer \<Rightarrow> callbacks \<Rightarrow> reason \<Rightarrow> 'a AsyncRequestState
       \<Rightarrow> outcome \<times> 'a entry list \<times> 'a AsyncRequestState"
  and onError ::
    "normalizer \<Rightarrow> callbacks \<Rightarrow> unknown \<Rightarrow> 'a AsyncRequestState
       \<Rightarrow> 'a entry list \<times> 'a AsyncRequestState"
  and as_request_error ::
    "normalizer \<Rightarrow> callbacks \<Rightarrow> unknown \<Rightarrow> 'a AsyncRequestState
       \<Rightarrow> 'a entry list \<times> 'a AsyncRequestState"
  and as_react ::
    "normalizer \<Rightarrow> callbacks \<Rightarrow> reaction \<Rightarrow> 'a AsyncRequestState
       \<Rightarrow> 'a entry list \<times> 'a AsyncRequestState"
where
  "AsyncRequestState_cancel parse cb r s =
     (if as_completed s then (Inr False, [], s)
      else (case fullError r of
              Inl x \<Rightarrow> (Inl x, [], s\<lparr>as_sub_closed := True\<rparr>)
            | Inr e \<Rightarrow>
                (case onError parse cb e (s\<lparr>as_sub_closed := True\<rparr>) of
                   (log, s1) \<Rightarrow> (Inr True, log, s1))))"
| "onError parse cb e s =
     (if as_completed s then ([], s)
      else (case as_request_error parse cb e (s\<lparr>as_completed := True\<rparr>) of
              (log, s1) \<Rightarrow>
                (log, s1\<lparr>as_result_chan := Subject_complete (as_result_chan s1),
                          as_loading := False,
                          as_error := Some (parse e)\<rparr>)))"
| "as_request_error parse cb e s =
     (if isStopped (as_request s) then ([], s)
      else as_react parse cb (on_error cb) (s\<lparr>as_request := Subject_error e (as_request s)\<rparr>))"
| "as_react parse cb k s =
     (case k of
        Ignore \<Rightarrow> ([], s)
      | Look \<Rightarrow> ([as_entry s None], s)
      | CallCancel r \<Rightarrow>
          (case AsyncRequestState_cancel parse cb r s of
             (out, log, s1) \<Rightarrow> (as_entry s (Some out) # log, s1)))"
  by pat_completeness auto
termination
  by (relation "measure (\<lambda>x. case x of
        Inl (Inl (parse, cb, r, s)) \<Rightarrow> (if as_completed s then 0 else 4) + 1
      | Inl (Inr (parse, cb, e, s)) \<Rightarrow> (if as_completed s then 0 else 4)
      | Inr (Inl (parse, cb, e, s)) \<Rightarrow> (if as_completed s then 0 else 4) + 3
      | Inr (Inr (parse, cb, k, s)) \<Rightarrow> (if as_completed s then 0 else 4) + 2)")
     auto

text \<open>\<^verbatim>\<open>this._request$.next(value)\<close> and \<^verbatim>\<open>this._request$.complete()\<close>.\<close>

definition as_request_next ::
  "normalizer \<Rightarrow> callbacks \<Rightarrow> 'a \<Rightarrow> 'a AsyncRequestState \<Rightarrow> 'a entry list \<times> 'a AsyncRequestState" where
  "as_request_next parse cb v s =
     (if isStopped (as_request s) then ([], s)
      else as_react parse cb (on_next cb) (s\<lparr>as_request := Subject_next v (as_request s)\<rparr>))"

definition as_request_complete ::
  "normalizer \<Rightarrow> callbacks \<Rightarrow> 'a AsyncRequestState \<Rightarrow> 'a entry list \<times> 'a AsyncRequestState" where
  "as_request_complete parse cb s =
     (if isStopped (as_request s) then ([], s)
      else as_react parse cb (on_complete cb) (s\<lparr>as_request := Subject_complete (as_request s)\<rparr>))"

definition onValue ::
  "normalizer \<Rightarrow> callbacks \<Rightarrow> 'a \<Rightarrow> 'a AsyncRequestState \<Rightarrow> 'a entry list \<times> 'a AsyncRequestState" where
  "onValue parse cb v s =
     (if as_completed s then ([], s)
      else (case as_request_next parse cb v (s\<lparr>as_completed := True\<rparr>) of
              (l1, s1) \<Rightarrow>
                (case as_request_complete parse cb s1 of
                   (l2, s2) \<Rightarrow>
                     (l1 @ l2,
                      s2\<lparr>as_result_chan := Subject_complete (Subject_next v (as_result_chan s2)),
                         as_loading := False,
                         as_result := Some v\<rparr>))))"

definition onCompleted ::
  "normalizer \<Rightarrow> callbacks \<Rightarrow> 'a AsyncRequestState \<Rightarrow> 'a entry list \<times> 'a AsyncRequestState" where
  "onCompleted parse cb s =
     (if as_completed s then ([], s)
      else (case as_request_complete parse cb (s\<lparr>as_completed := True\<rparr>) of
              (log, s1) \<Rightarrow>
                (log, s1\<lparr>as_result_chan := Subject_complete (as_result_chan s1),
                          as_loading := False\<rparr>)))"

text \<open>
  The subscriber the constructor attaches to the wrapped source,
  \<^verbatim>\<open>request$.subscribe({next: x => this.onValue(x), error: x => this.onError(x),
       complete: () => this.onCompleted()})\<close>
  with \<^verbatim>\<open>request$ = isObservable(request) ? request.pipe(take(1)) : from(request)\<close>:
  a closed subscription passes nothing on; the first value is followed at once by the
  completion (of \<^verbatim>\<open>take(1)\<close>, or of the settled promise), unless the subscription was
  closed while the value was handled; the subscription is closed once the handler of a
  terminal notification has returned.
\<close>

definition AsyncRequestState_source ::
  "normalizer \<Rightarrow> callbacks \<Rightarrow> 'a notification \<Rightarrow> 'a AsyncRequestState
     \<Rightarrow> 'a entry list \<times> 'a AsyncRequestState" where
  "AsyncRequestState_source parse cb n s =
     (if as_sub_closed s then ([], s)
      else (case n of
              Next x \<Rightarrow>
                (case onValue parse cb x s of
                   (l1, s1) \<Rightarrow>
                     if as_sub_closed s1 then (l1, s1)
                     else (case onCompleted parse cb s1 of
                             (l2, s2) \<Rightarrow> (l1 @ l2, s2\<lparr>as_sub_closed := True\<rparr>)))
            | Raise x \<Rightarrow>
                (case onError parse cb x s of (log, s1) \<Rightarrow> (log, s1\<lparr>as_sub_closed := True\<rparr>))
            | Complete \<Rightarrow>
                (case onCompleted parse cb s of (log, s1) \<Rightarrow> (log, s1\<lparr>as_sub_closed := True\<rparr>))))"

section \<open>AsyncRequestState forwarding into the subject (src/request-state/async-request-state.ts)\<close>

record 'a ForwardingRequestState =
  fw_request :: "'a Subject"
  fw_result_chan :: "'a Subject"
  fw_result :: "'a option"
  fw_loading :: bool
  fw_error :: "Error option"
  fw_sub_closed :: bool

definition ForwardingRequestState_new :: "'a ForwardingRequestState" where
  "ForwardingRequestState_new =
     \<lparr>fw_request = Subject_new, fw_result_chan = Subject_new, fw_result = None,
      fw_loading = True, fw_error = None, fw_sub_closed = False\<rparr>"

definition fw_failed :: "'a ForwardingRequestState \<Rightarrow> bool" where
  "fw_failed s = (fw_error s \<noteq> None)"

definition fw_entry :: "'a ForwardingRequestState \<Rightarrow> outcome option \<Rightarrow> 'a entry" where
  "fw_entry s out =
     \<lparr>seen_result = fw_result s, seen_loading = fw_loading s, seen_error = fw_error s,
      returned = out\<rparr>"

text \<open>
  The three handlers of \<^verbatim>\<open>this.request$.subscribe({next, error, complete})\<close> in the
  constructor. This subscriber is the first of the subject, so its handler runs before
  the callback of an outside subscriber.
\<close>

definition fw_next :: "'a \<Rightarrow> 'a ForwardingRequestState \<Rightarrow> 'a ForwardingRequestState" where
  "fw_next v s = s\<lparr>fw_result_chan := Subject_next v (fw_result_chan s), fw_result := Some v\<rparr>"

definition fw_error_handler ::
  "normalizer \<Rightarrow> unknown \<Rightarrow> 'a ForwardingRequestState \<Rightarrow> 'a ForwardingRequestState" where
  "fw_error_handler parse e s =
     s\<lparr>fw_error := Some (parse e),
       fw_result_chan := Subject_complete (fw_result_chan s),
       fw_loading := False\<rparr>"

definition fw_complete :: "'a ForwardingRequestState \<Rightarrow> 'a ForwardingRequestState" where
  "fw_complete s = s\<lparr>fw_result_chan := Subject_complete (fw_result_chan s), fw_loading := False\<rparr>"

text \<open>
  \<^verbatim>\<open>cancel\<close>, and \<^verbatim>\<open>this._request$.error(e)\<close>: the subject, unless it has stopped, stops
  and notifies the constructor's handler and then the outside subscriber, whose callback
  (\<open>fw_react\<close>) may call \<^verbatim>\<open>cancel\<close> in turn. The guard of \<^verbatim>\<open>cancel\<close> is
  \<^verbatim>\<open>this.sub.closed\<close>.
\<close>

function ForwardingRequestState_cancel ::
    "normalizer \<Rightarrow> callbacks \<Rightarrow> reason \<Rightarrow> 'a ForwardingRequestState
       \<Rightarrow> outcome \<times> 'a entry list \<times> 'a ForwardingRequestState"
  and request_error ::
    "normalizer \<Rightarrow> callbacks \<Rightarrow> unknown \<Rightarrow> 'a ForwardingRequestState
       \<Rightarrow> 'a entry list \<times> 'a ForwardingRequestState"
  and fw_react ::
    "normalizer \<Rightarrow> callbacks \<Rightarrow> reaction \<Rightarrow> 'a ForwardingRequestState
       \<Rightarrow> 'a entry list \<times> 'a ForwardingRequestState"
where
  "ForwardingRequestState_cancel parse cb r s =
     (if fw_sub_closed s then (Inr False, [], s)
      else (case fullError r of
              Inl x \<Rightarrow> (Inl x, [], s\<lparr>fw_sub_closed := True\<rparr>)
            | Inr e \<Rightarrow>
                (case request_error parse cb e (s\<lparr>fw_sub_closed := True\<rparr>) of
                   (log, s1) \<Rightarrow> (Inr True, log, s1))))"
| "request_error parse cb e s =
     (if isStopped (fw_request s) then ([], s)
      else fw_react parse cb (on_error cb)
             (fw_error_handler parse e (s\<lparr>fw_request := Subject_error e (fw_request s)\<rparr>)))"
| "fw_react parse cb k s =
     (case k of
        Ignore \<Rightarrow> ([], s)
      | Look \<Rightarrow> ([fw_entry s None], s)
      | CallCancel r \<Rightarrow>
          (case ForwardingRequestState_cancel parse cb r s of
             (out, log, s1) \<Rightarrow> (fw_entry s (Some out) # log, s1)))"
  by pat_completeness auto
termination
  by (relation "measure (\<lambda>x. case x of
        Inl (parse, cb, r, s) \<Rightarrow> (if isStopped (fw_request s) then 0 else 3) + 1
      | Inr (Inl (parse, cb, e, s)) \<Rightarrow> (if isStopped (fw_request s) then 0 else 3)
      | Inr (Inr (parse, cb, k, s)) \<Rightarrow> (if isStopped (fw_request s) then 0 else 3) + 2)")
     (auto simp: fw_error_handler_def Subject_error_def)

text \<open>\<^verbatim>\<open>this._request$.next(v)\<close> and \<^verbatim>\<open>this._request$.complete()\<close>.\<close>

definition request_next ::
  "normalizer \<Rightarrow> callbacks \<Rightarrow> 'a \<Rightarrow> 'a ForwardingRequestState
     \<Rightarrow> 'a entry list \<times> 'a ForwardingRequestState" where
  "request_next parse cb v s =
     (if isStopped (fw_request s) then ([], s)
      else fw_react parse cb (on_next cb)
             (fw_next v (s\<lparr>fw_request := Subject_next v (fw_request s)\<rparr>)))"

definition request_complete ::
  "normalizer \<Rightarrow> callbacks \<Rightarrow> 'a ForwardingRequestState
     \<Rightarrow> 'a entry list \<times> 'a ForwardingRequestState" where
  "request_complete parse cb s =
     (if isStopped (fw_request s) then ([], s)
      else fw_react parse cb (on_complete cb)
             (fw_complete (s\<lparr>fw_request := Subject_complete (fw_request s)\<rparr>)))"

text \<open>
  \<^verbatim>\<open>this.sub = request$.subscribe(this._request$)\<close>, with the same \<^verbatim>\<open>request$\<close> as in
  the other class. The subscriber \<^verbatim>\<open>this.sub\<close> hands a notification to the subject and,
  for a terminal one, is closed only when the subject has returned from notifying its
  subscribers: while their callbacks run, \<^verbatim>\<open>this.sub.closed\<close> is still false. After a
  value, the completion of \<^verbatim>\<open>take(1)\<close> (or of the settled promise) follows unless a
  callback has closed the subscription in the meantime.
\<close>

definition ForwardingRequestState_source ::
  "normalizer \<Rightarrow> callbacks \<Rightarrow> 'a notification \<Rightarrow> 'a ForwardingRequestState
     \<Rightarrow> 'a entry list \<times> 'a ForwardingRequestState" where
  "ForwardingRequestState_source parse cb n s =
     (if fw_sub_closed s then ([], s)
      else (case n of
              Next x \<Rightarrow>
                (case request_next parse cb x s of
                   (l1, s1) \<Rightarrow>
                     if fw_sub_closed s1 then (l1, s1)
                     else (case request_complete parse cb s1 of
                             (l2, s2) \<Rightarrow> (l1 @ l2, s2\<lparr>fw_sub_closed := True\<rparr>)))
            | Raise x \<Rightarrow>
                (case request_error parse cb x s of (log, s1) \<Rightarrow> (log, s1\<lparr>fw_sub_closed := True\<rparr>))
            | Complete \<Rightarrow>
                (case request_complete parse cb s of (log, s1) \<Rightarrow> (log, s1\<lparr>fw_sub_closed := True\<rparr>))))"

section \<open>The variants without a wrapped source\<close>

text \<open>LoadingRequestState (unnamed/part_005): a plain \<^verbatim>\<open>Subject\<close> and the loading cell.\<close>

record 'a LoadingRequestState =
  ld_request :: "'a Subject"
  ld_loading :: bool

definition LoadingRequestState_new :: "'a LoadingRequestState" where
  "LoadingRequestState_new = \<lparr>ld_request = Subject_new, ld_loading = True\<rparr>"

definition LoadingRequestState_cancel :: "'a LoadingRequestState \<Rightarrow> bool \<times> 'a LoadingRequestState" where
  "LoadingRequestState_cancel s =
     (if closed (ld_request s) then (False, s)
      else (False, s\<lparr>ld_request := Subject_complete (ld_request s), ld_loading := False\<rparr>))"

text \<open>StaticRequestState (second part of src/operators.ts).\<close>

record 'a StaticRequestState =
  st_value :: 'a

definition StaticRequestState_new :: "'a \<Rightarrow> 'a StaticRequestState" where
  "StaticRequestState_new v = \<lparr>st_value = v\<rparr>"

text \<open>
  ErrorRequestState (unnamed/part_003). The factory \<^verbatim>\<open>getError: () => Error\<close> is a
  JavaScript closure, which may answer differently each time it is called: \<open>er_getError s k\<close>
  is the instance its call number \<open>k\<close> returns (counting from 0) and \<open>er_invocations\<close>
  counts the calls made so far. The constructor calls it for the error cell,
  \<^verbatim>\<open>this.error = signal(getError())\<close>, and hands the factory itself to rxjs,
  \<^verbatim>\<open>this.request$ = throwError(getError)\<close>, which calls it for each subscriber.
\<close>

record ErrorRequestState =
  er_error :: Error
  er_getError :: "nat \<Rightarrow> Error"
  er_invocations :: nat

definition ErrorRequestState_new :: "(nat \<Rightarrow> Error) \<Rightarrow> ErrorRequestState" where
  "ErrorRequestState_new getError = \<lparr>er_error = getError 0, er_getError = getError, er_invocations = 1\<rparr>"

definition ErrorRequestState_subscribe :: "ErrorRequestState \<Rightarrow> 'a notification list \<times> ErrorRequestState" where
  "ErrorRequestState_subscribe s =
     ([Raise (Instance (er_getError s (er_invocations s)))],
      s\<lparr>er_invocations := Suc (er_invocations s)\<rparr>)"

text \<open>
  \<^verbatim>\<open>errorRequestState(error: Error | (() => Error))\<close> of constructors.ts:
  \<^verbatim>\<open>new ErrorRequestState(error instanceof Error ? () => error : error)\<close>.
\<close>

datatype error_source = AnError Error | Factory "nat \<Rightarrow> Error"

definition as_factory :: "error_source \<Rightarrow> nat \<Rightarrow> Error" where
  "as_factory src = (case src of AnError e \<Rightarrow> (\<lambda>k. e) | Factory g \<Rightarrow> g)"

definition errorRequestState :: "error_source \<Rightarrow> ErrorRequestState" where
  "errorRequestState src = ErrorRequestState_new (as_factory src)"

text \<open>
  \<open>subscribers ss s\<close> subscribes to \<^verbatim>\<open>request$\<close> once for every element of \<open>ss\<close> (as
  \<^verbatim>\<open>then\<close>, \<^verbatim>\<open>catch\<close>, \<^verbatim>\<open>finally\<close> and \<^verbatim>\<open>subscribe\<close> each do) and returns what each
  subscriber was handed, in order, with the final state.
\<close>

fun subscribers :: "'b list \<Rightarrow> ErrorRequestState \<Rightarrow> unknown notification list list \<times> ErrorRequestState" where
  "subscribers [] s = ([], s)"
| "subscribers (x # xs) s =
     (let (ns, s1) = ErrorRequestState_subscribe s;
          (rest, s2) = subscribers xs s1
      in (ns # rest, s2))"

section \<open>The polymorphic contract\<close>

text \<open>
  Every class extends \<^verbatim>\<open>IValueRequestState\<close>; an object is one of the seven classes.
  EmptyRequestState (unnamed/part_003) has no mutable field.
\<close>

datatype 'a request_state =
    Static "'a StaticRequestState"
  | ErrorState ErrorRequestState
  | Empty
  | Loading "'a LoadingRequestState"
  | Async "'a AsyncRequestState"
  | Forwarding "'a ForwardingRequestState"
  | Writable "'a WritableRequestState"

fun result_of :: "'a request_state \<Rightarrow> 'a option" where
  "result_of (Static s) = Some (st_value s)"
| "result_of (ErrorState s) = None"
| "result_of Empty = None"
| "result_of (Loading s) = None"
| "result_of (Async s) = as_result s"
| "result_of (Forwarding s) = fw_result s"
| "result_of (Writable s) = wr_result s"

fun loading_of :: "'a request_state \<Rightarrow> bool" where
  "loading_of (Static s) = False"
| "loading_of (ErrorState s) = False"
| "loading_of Empty = False"
| "loading_of (Loading s) = ld_loading s"
| "loading_of (Async s) = as_loading s"
| "loading_of (Forwarding s) = fw_loading s"
| "loading_of (Writable s) = wr_loading s"

fun error_of :: "'a request_state \<Rightarrow> Error option" where
  "error_of (Static s) = None"
| "error_of (ErrorState s) = Some (er_error s)"
| "error_of Empty = None"
| "error_of (Loading s) = None"
| "error_of (Async s) = as_error s"
| "error_of (Forwarding s) = fw_error s"
| "error_of (Writable s) = wr_error s"

fun failed_of :: "'a request_state \<Rightarrow> bool" where
  "failed_of (Static s) = False"
| "failed_of (ErrorState s) = True"
| "failed_of Empty = False"
| "failed_of (Loading s) = False"
| "failed_of (Async s) = as_failed s"
| "failed_of (Forwarding s) = fw_failed s"
| "failed_of (Writable s) = wr_failed s"

text \<open>
  \<^verbatim>\<open>cancel\<close> called from outside, between the notifications, on an object whose
  subscribers do not call back into it. The classes whose \<^verbatim>\<open>cancel()\<close> takes no argument
  ignore the reason.
\<close>

fun cancel :: "normalizer \<Rightarrow> reason \<Rightarrow> 'a request_state \<Rightarrow> outcome \<times> 'a request_state" where
  "cancel parse r (Static s) = (Inr False, Static s)"
| "cancel parse r (ErrorState s) = (Inr False, ErrorState s)"
| "cancel parse r Empty = (Inr False, Empty)"
| "cancel parse r (Loading s) = (let (b, s1) = LoadingRequestState_cancel s in (Inr b, Loading s1))"
| "cancel parse r (Async s) =
     (case AsyncRequestState_cancel parse no_callbacks r s of (out, log, s1) \<Rightarrow> (out, Async s1))"
| "cancel parse r (Forwarding s) =
     (case ForwardingRequestState_cancel parse no_callbacks r s of
        (out, log, s1) \<Rightarrow> (out, Forwarding s1))"
| "cancel parse r (Writable s) =
     (let (out, s1) = WritableRequestState_cancel parse r s in (out, Writable s1))"

text \<open>
  \<^verbatim>\<open>subscribe(observer)\<close>: what a subscriber of \<^verbatim>\<open>request$\<close> is handed, and the state
  afterwards. \<^verbatim>\<open>of(value)\<close> emits the value and completes, \<^verbatim>\<open>EMPTY\<close> completes.
\<close>

fun subscribe :: "'a request_state \<Rightarrow> 'a notification list \<times> 'a request_state" where
  "subscribe (Static s) = ([Next (st_value s), Complete], Static s)"
| "subscribe (ErrorState s) = (let (ns, s1) = ErrorRequestState_subscribe s in (ns, ErrorState s1))"
| "subscribe Empty = ([Complete], Empty)"
| "subscribe (Loading s) = (observed (ld_request s), Loading s)"
| "subscribe (Async s) = (observed (as_request s), Async s)"
| "subscribe (Forwarding s) = (observed (fw_request s), Forwarding s)"
| "subscribe (Writable s) = (observed (wr_request s), Writable s)"

text \<open>
  An attempt to move an object on: a call of \<^verbatim>\<open>cancel\<close>, a notification of the wrapped
  source (for the two classes that wrap one), or a call of \<^verbatim>\<open>setValue\<close> or \<^verbatim>\<open>setError\<close>
  (for the class that has them). A class without the operation is left as it is. A run
  is a sequence of such attempts made one after the other from outside, on an object
  whose subscribers do not call back into it.
\<close>

datatype 'a operation = Cancel reason | Source "'a notification" | SetValue 'a | SetError unknown

fun attempt :: "normalizer \<Rightarrow> 'a operation \<Rightarrow> 'a request_state \<Rightarrow> 'a request_state" where
  "attempt parse (Cancel r) st = snd (cancel parse r st)"
| "attempt parse (Source n) (Async s) = Async (snd (AsyncRequestState_source parse no_callbacks n s))"
| "attempt parse (Source n) (Forwarding s) =
     Forwarding (snd (ForwardingRequestState_source parse no_callbacks n s))"
| "attempt parse (SetValue v) (Writable s) = Writable (setValue v s)"
| "attempt parse (SetError e) (Writable s) = Writable (setError parse e s)"
| "attempt parse a st = st"

fun run :: "normalizer \<Rightarrow> 'a operation list \<Rightarrow> 'a request_state \<Rightarrow> 'a request_state" where
  "run parse [] st = st"
| "run parse (a # as) st = run parse as (attempt parse a st)"

text \<open>The constructor calls.\<close>

datatype 'a ctor =
    NewStatic 'a
  | NewError error_source
  | NewEmpty
  | NewLoading
  | NewAsync
  | NewForwarding
  | NewWritable bool

fun construct :: "'a ctor \<Rightarrow> 'a request_state" where
  "construct (NewStatic v) = Static (StaticRequestState_new v)"
| "construct (NewError src) = ErrorState (errorRequestState src)"
| "construct NewEmpty = Empty"
| "construct NewLoading = Loading LoadingRequestState_new"
| "construct NewAsync = Async AsyncRequestState_new"
| "construct NewForwarding = Forwarding ForwardingRequestState_new"
| "construct (NewWritable onCancel) = Writable (WritableRequestState_new onCancel)"


text \<open>
  \<^verbatim>\<open>result$\<close>: StaticRequestState, EmptyRequestState and LoadingRequestState reuse
  \<^verbatim>\<open>request$\<close>, ErrorRequestState has \<^verbatim>\<open>EMPTY\<close>, the others a subject of their own.
\<close>

fun result_notifications :: "'a request_state \<Rightarrow> 'a notification list" where
  "result_notifications (Static s) = [Next (st_value s), Complete]"
| "result_notifications (ErrorState s) = [Complete]"
| "result_notifications Empty = [Complete]"
| "result_notifications (Loading s) = observed (ld_request s)"
| "result_notifications (Async s) = observed (as_result_chan s)"
| "result_notifications (Forwarding s) = observed (fw_result_chan s)"
| "result_notifications (Writable s) = observed (wr_result_chan s)"



fun is_cancel :: "'a operation \<Rightarrow> bool" where
  "is_cancel (Cancel r) = True"
| "is_cancel a = False"


text \<open>
  The latch of each class: the guard its operations test before they do anything.
\<close>

fun latched :: "'a request_state \<Rightarrow> bool" where
  "latched (Static s) = True"
| "latched (ErrorState s) = True"
| "latched Empty = True"
| "latched (Loading s) = (closed (ld_request s) \<or> (isStopped (ld_request s) \<and> \<not> ld_loading s))"
| "latched (Async s) = (as_completed s \<and> as_sub_closed s)"
| "latched (Forwarding s) = fw_sub_closed s"
| "latched (Writable s) = wr_completed s"




section \<open>Objects behind references\<close>

text \<open>
  A tracker holds a reference to a request state that others may hold and drive as well,
  so the objects live in a store and a signal is read through a reference at the moment
  of the read.
\<close>

type_synonym ref = nat

record 'a heap =
  objs :: "ref \<Rightarrow> 'a request_state option"
  next_ref :: ref

definition alloc :: "'a request_state \<Rightarrow> 'a heap \<Rightarrow> ref \<times> 'a heap" where
  "alloc st h = (next_ref h, h\<lparr>objs := (objs h)(next_ref h \<mapsto> st), next_ref := Suc (next_ref h)\<rparr>)"

definition read_result :: "'a heap \<Rightarrow> ref \<Rightarrow> 'a option option" where
  "read_result h r = map_option result_of (objs h r)"

definition read_loading :: "'a heap \<Rightarrow> ref \<Rightarrow> bool option" where
  "read_loading h r = map_option loading_of (objs h r)"

definition read_error :: "'a heap \<Rightarrow> ref \<Rightarrow> Error option option" where
  "read_error h r = map_option error_of (objs h r)"

definition read_failed :: "'a heap \<Rightarrow> ref \<Rightarrow> bool option" where
  "read_failed h r = map_option failed_of (objs h r)"

definition read_request :: "'a heap \<Rightarrow> ref \<Rightarrow> 'a notification list option" where
  "read_request h r = map_option (\<lambda>st. fst (subscribe st)) (objs h r)"

definition read_result_chan :: "'a heap \<Rightarrow> ref \<Rightarrow> 'a notification list option" where
  "read_result_chan h r = map_option result_notifications (objs h r)"

text \<open>\<^verbatim>\<open>asReadonly(): IValueRequestState<T> { return this; }\<close>\<close>

definition asReadonly :: "ref \<Rightarrow> ref" where
  "asReadonly this = this"

section \<open>The constructor facade (constructors.ts)\<close>

text \<open>
  \<^verbatim>\<open>requestState\<close> is the function \<^verbatim>\<open>valueRequestState\<close> with the alternate
  constructors attached as properties. A property holds one of the four functions of the
  file, or is \<^verbatim>\<open>undefined\<close> when nothing was assigned to it.
\<close>

datatype constructor_fn =
  writableRequestState_fn | errorRequestState_fn | loadingRequestState_fn | emptyRequestState_fn

type_synonym facade = "string \<Rightarrow> constructor_fn option"

text \<open>
  \<^verbatim>\<open>const compiled = valueRequestState as typeof valueRequestState & AltConstructors\<close>:
  a cast, which attaches nothing.
\<close>

definition compiled :: facade where
  "compiled = Map.empty"

text \<open>
  \<^verbatim>\<open>compiled.writable = writableRequestState;
  compiled.error = errorRequestState;
  export const requestState = compiled;\<close>
\<close>

definition requestState :: facade where
  "requestState = compiled(''writable'' \<mapsto> writableRequestState_fn, ''error'' \<mapsto> errorRequestState_fn)"

definition emptyRequestState :: "'a heap \<Rightarrow> ref \<times> 'a heap" where
  "emptyRequestState h = alloc Empty h"

text \<open>
  Calling one of the four functions without an argument. \<^verbatim>\<open>errorRequestState()\<close> ends in
  \<^verbatim>\<open>getError()\<close> with \<^verbatim>\<open>getError\<close> undefined.
\<close>

fun call_noargs :: "constructor_fn \<Rightarrow> 'a heap \<Rightarrow> exception + (ref \<times> 'a heap)" where
  "call_noargs emptyRequestState_fn h = Inr (emptyRequestState h)"
| "call_noargs loadingRequestState_fn h = Inr (alloc (Loading LoadingRequestState_new) h)"
| "call_noargs writableRequestState_fn h = Inr (alloc (Writable (WritableRequestState_new False)) h)"
| "call_noargs errorRequestState_fn h = Inl TypeError"

text \<open>
  \<^verbatim>\<open>requestState.empty()\<close>: calling a property that is \<^verbatim>\<open>undefined\<close> throws a TypeError.
\<close>

definition call_empty :: "facade \<Rightarrow> 'a heap \<Rightarrow> exception + (ref \<times> 'a heap)" where
  "call_empty rs h = (case rs ''empty'' of None \<Rightarrow> Inl TypeError | Some f \<Rightarrow> call_noargs f h)"

section \<open>RequestTracker and ValueRequestTracker (request-tracker.ts)\<close>

text \<open>
  \<open>rt_request\<close> is the content of the cell \<^verbatim>\<open>_request\<close>, \<open>vt_valueRequest\<close> that of
  \<^verbatim>\<open>_valueRequest\<close>. The trackers take the imported \<^verbatim>\<open>requestState\<close> as an argument.
\<close>

record RequestTracker =
  rt_request :: ref

record ValueRequestTracker = RequestTracker +
  vt_valueRequest :: ref

definition RequestTracker_new ::
  "facade \<Rightarrow> ref option \<Rightarrow> 'a heap \<Rightarrow> exception + (RequestTracker \<times> 'a heap)" where
  "RequestTracker_new rs request h =
     (case request of
        Some r \<Rightarrow> Inr (\<lparr>rt_request = r\<rparr>, h)
      | None \<Rightarrow> (case call_empty rs h of
                   Inl e \<Rightarrow> Inl e
                 | Inr (r, h1) \<Rightarrow> Inr (\<lparr>rt_request = r\<rparr>, h1)))"

definition RequestTracker_current :: "RequestTracker \<Rightarrow> ref" where
  "RequestTracker_current t = rt_request t"

definition RequestTracker_loading :: "'a heap \<Rightarrow> 'z RequestTracker_scheme \<Rightarrow> bool option" where
  "RequestTracker_loading h t = read_loading h (rt_request t)"

definition RequestTracker_error :: "'a heap \<Rightarrow> 'z RequestTracker_scheme \<Rightarrow> Error option option" where
  "RequestTracker_error h t = read_error h (rt_request t)"

definition RequestTracker_failed :: "'a heap \<Rightarrow> 'z RequestTracker_scheme \<Rightarrow> bool option" where
  "RequestTracker_failed h t = read_failed h (rt_request t)"

definition RequestTracker_set :: "ref \<Rightarrow> 'z RequestTracker_scheme \<Rightarrow> 'z RequestTracker_scheme" where
  "RequestTracker_set state t = t\<lparr>rt_request := state\<rparr>"

definition RequestTracker_reset ::
  "facade \<Rightarrow> 'z RequestTracker_scheme \<Rightarrow> 'a heap \<Rightarrow> exception + ('z RequestTracker_scheme \<times> 'a heap)" where
  "RequestTracker_reset rs t h =
     (case call_empty rs h of
        Inl e \<Rightarrow> Inl e
      | Inr (r, h1) \<Rightarrow> Inr (t\<lparr>rt_request := r\<rparr>, h1))"

text \<open>
  The constructor of ValueRequestTracker calls \<^verbatim>\<open>super()\<close> without an argument and then
  fills its own cell with \<^verbatim>\<open>request ?? requestState.empty<T>()\<close>.
\<close>

definition ValueRequestTracker_new ::
  "facade \<Rightarrow> ref option \<Rightarrow> 'a heap \<Rightarrow> exception + (ValueRequestTracker \<times> 'a heap)" where
  "ValueRequestTracker_new rs request h =
     (case RequestTracker_new rs None h of
        Inl e \<Rightarrow> Inl e
      | Inr (base, h1) \<Rightarrow>
          (case request of
             Some r \<Rightarrow> Inr (\<lparr>rt_request = rt_request base, vt_valueRequest = r\<rparr>, h1)
           | None \<Rightarrow> (case call_empty rs h1 of
                        Inl e \<Rightarrow> Inl e
                      | Inr (r, h2) \<Rightarrow> Inr (\<lparr>rt_request = rt_request base, vt_valueRequest = r\<rparr>, h2))))"

definition ValueRequestTracker_current :: "ValueRequestTracker \<Rightarrow> ref" where
  "ValueRequestTracker_current t = vt_valueRequest t"

definition ValueRequestTracker_set :: "ref \<Rightarrow> ValueRequestTracker \<Rightarrow> ValueRequestTracker" where
  "ValueRequestTracker_set req t = (RequestTracker_set req t)\<lparr>vt_valueRequest := req\<rparr>"

definition ValueRequestTracker_reset ::
  "facade \<Rightarrow> ValueRequestTracker \<Rightarrow> 'a heap \<Rightarrow> exception + (ValueRequestTracker \<times> 'a heap)" where
  "ValueRequestTracker_reset rs t h =
     (case RequestTracker_reset rs t h of
        Inl e \<Rightarrow> Inl e
      | Inr (t1, h1) \<Rightarrow>
          (case call_empty rs h1 of
             Inl e \<Rightarrow> Inl e
           | Inr (r, h2) \<Rightarrow> Inr (ValueRequestTracker_set r t1, h2)))"

text \<open>A store holding one object, a LoadingRequestState, at reference 0.\<close>

definition loading_heap :: "nat heap" where
  "loading_heap = snd (alloc (Loading LoadingRequestState_new) \<lparr>objs = Map.empty, next_ref = 0\<rparr>)"

text \<open>
  A factory in the manner of \<^verbatim>\<open>() => new Error(...)\<close>, which makes a new instance at
  every call: the message tells the instances apart.
\<close>

definition fresh_error :: "nat \<Rightarrow> Error" where
  "fresh_error k = Error (replicate k (CHR ''x''))"

section \<open>The methods on an object without callbacks\<close>

text \<open>
  With no outside callback the methods of the two AsyncRequestState classes reduce to
  plain updates of the state.
\<close>

lemmas subject_defs = Subject_new_def Subject_next_def Subject_error_def Subject_complete_def

lemma as_request_error_plain:
  "as_request_error parse no_callbacks e s = ([], s\<lparr>as_request := Subject_error e (as_request s)\<rparr>)"
  by (simp add: no_callbacks_def Subject_error_def)

lemma as_request_next_plain:
  "as_request_next parse no_callbacks v s = ([], s\<lparr>as_request := Subject_next v (as_request s)\<rparr>)"
  by (simp add: as_request_next_def no_callbacks_def Subject_next_def)

lemma as_request_complete_plain:
  "as_request_complete parse no_callbacks s = ([], s\<lparr>as_request := Subject_complete (as_request s)\<rparr>)"
  by (simp add: as_request_complete_def no_callbacks_def Subject_complete_def)

lemma onError_plain:
  "onError parse no_callbacks e s =
     ([], if as_completed s then s
          else s\<lparr>as_completed := True,
                 as_request := Subject_error e (as_request s),
                 as_result_chan := Subject_complete (as_result_chan s),
                 as_loading := False,
                 as_error := Some (parse e)\<rparr>)"
  by (simp add: as_request_error_plain del: as_request_error.simps)

lemma onValue_plain:
  "onValue parse no_callbacks v s =
     ([], if as_completed s then s
          else s\<lparr>as_completed := True,
                 as_request := Subject_complete (Subject_next v (as_request s)),
                 as_result_chan := Subject_complete (Subject_next v (as_result_chan s)),
                 as_loading := False,
                 as_result := Some v\<rparr>)"
  by (simp add: onValue_def as_request_next_plain as_request_complete_plain)

lemma onCompleted_plain:
  "onCompleted parse no_callbacks s =
     ([], if as_completed s then s
          else s\<lparr>as_completed := True,
                 as_request := Subject_complete (as_request s),
                 as_result_chan := Subject_complete (as_result_chan s),
                 as_loading := False\<rparr>)"
  by (simp add: onCompleted_def as_request_complete_plain)

lemma AsyncRequestState_cancel_plain:
  "AsyncRequestState_cancel parse no_callbacks r s =
     (if as_completed s then (Inr False, [], s)
      else (case fullError r of
              Inl x \<Rightarrow> (Inl x, [], s\<lparr>as_sub_closed := True\<rparr>)
            | Inr e \<Rightarrow> (Inr True, [], snd (onError parse no_callbacks e (s\<lparr>as_sub_closed := True\<rparr>)))))"
  by (simp add: onError_plain del: onError.simps split: sum.split)

lemma AsyncRequestState_source_plain:
  "AsyncRequestState_source parse no_callbacks n s =
     ([], if as_sub_closed s then s
          else (case n of
                  Next x \<Rightarrow> snd (onCompleted parse no_callbacks (snd (onValue parse no_callbacks x s)))
                | Raise x \<Rightarrow> snd (onError parse no_callbacks x s)
                | Complete \<Rightarrow> snd (onCompleted parse no_callbacks s))\<lparr>as_sub_closed := True\<rparr>)"
  by (cases n)
     (simp_all add: AsyncRequestState_source_def onError_plain onValue_plain onCompleted_plain
        del: onError.simps)

lemma request_error_plain:
  "request_error parse no_callbacks e s =
     ([], if isStopped (fw_request s) then s
          else fw_error_handler parse e (s\<lparr>fw_request := Subject_error e (fw_request s)\<rparr>))"
  by (simp add: no_callbacks_def)

lemma request_next_plain:
  "request_next parse no_callbacks v s =
     ([], if isStopped (fw_request s) then s
          else fw_next v (s\<lparr>fw_request := Subject_next v (fw_request s)\<rparr>))"
  by (simp add: request_next_def no_callbacks_def)

lemma request_complete_plain:
  "request_complete parse no_callbacks s =
     ([], if isStopped (fw_request s) then s
          else fw_complete (s\<lparr>fw_request := Subject_complete (fw_request s)\<rparr>))"
  by (simp add: request_complete_def no_callbacks_def)

lemma ForwardingRequestState_cancel_plain:
  "ForwardingRequestState_cancel parse no_callbacks r s =
     (if fw_sub_closed s then (Inr False, [], s)
      else (case fullError r of
              Inl x \<Rightarrow> (Inl x, [], s\<lparr>fw_sub_closed := True\<rparr>)
            | Inr e \<Rightarrow> (Inr True, [], snd (request_error parse no_callbacks e (s\<lparr>fw_sub_closed := True\<rparr>)))))"
  by (simp add: request_error_plain del: request_error.simps split: sum.split)

lemma ForwardingRequestState_source_plain:
  "ForwardingRequestState_source parse no_callbacks n s =
     ([], if fw_sub_closed s then s
          else (case n of
                  Next x \<Rightarrow> snd (request_complete parse no_callbacks (snd (request_next parse no_callbacks x s)))
                | Raise x \<Rightarrow> snd (request_error parse no_callbacks x s)
                | Complete \<Rightarrow> snd (request_complete parse no_callbacks s))\<lparr>fw_sub_closed := True\<rparr>)"
  by (cases n)
     (simp_all add: ForwardingRequestState_source_def request_error_plain request_next_plain
        request_complete_plain fw_next_def del: request_error.simps)

lemmas plain_defs = onError_plain onValue_plain onCompleted_plain AsyncRequestState_cancel_plain
  AsyncRequestState_source_plain request_error_plain request_next_plain request_complete_plain
  ForwardingRequestState_cancel_plain ForwardingRequestState_source_plain
  fw_next_def fw_error_handler_def fw_complete_def
lemmas writable_defs = setError_def setValue_def WritableRequestState_cancel_def
lemmas rec_simps = AsyncRequestState_cancel.simps onError.simps as_request_error.simps as_react.simps
  ForwardingRequestState_cancel.simps request_error.simps fw_react.simps

declare rec_simps [simp del]

lemmas eval_defs = subject_defs writable_defs plain_defs
  LoadingRequestState_new_def AsyncRequestState_new_def ForwardingRequestState_new_def
  WritableRequestState_new_def StaticRequestState_new_def LoadingRequestState_cancel_def
  fullError_def parseError_def
lemmas callback_defs = rec_simps as_request_next_def as_request_complete_def onValue_def
  onCompleted_def AsyncRequestState_source_def request_next_def request_complete_def
  ForwardingRequestState_source_def fw_next_def fw_error_handler_def fw_complete_def
  as_entry_def fw_entry_def then_cancels_def finally_cancels_def then_looks_def
  AsyncRequestState_new_def ForwardingRequestState_new_def subject_defs fullError_def

section \<open>Cancelling from inside a callback\<close>

text \<open>
  Claim C1: for every variant a terminal transition occurs at most once, and after the
  first one every further attempt is a no-op. The AsyncRequestState of
  async-request-state.ts does not keep to it: its only guard is \<^verbatim>\<open>this.sub.closed\<close>, which
  is still false while the subject hands a value to its subscribers. With the subscriber
  of \<^verbatim>\<open>st.then(v => st.cancel(m))\<close> attached and the source delivering the value \<open>v\<close> to
  a new object, the callback sees the result already set, its \<^verbatim>\<open>cancel\<close> returns true,
  and the object ends with the result \<open>v\<close> and the error \<^verbatim>\<open>CancelledError(m)\<close>, the request
  channel having emitted the value and then raised the error. The AsyncRequestState of
  part_004, which sets its latch first, returns false to the same call and ends with the
  value alone.
\<close>

theorem cancel_from_then_callback_second_outcome:
  "ForwardingRequestState_source parse (then_cancels (Message m)) (Next v) ForwardingRequestState_new
     = ([\<lparr>seen_result = Some v, seen_loading = True, seen_error = None, returned = Some (Inr True)\<rparr>],
        \<lparr>fw_request = \<lparr>observed = [Next v, Raise (Instance (CancelledError m))],
                        isStopped = True, closed = False\<rparr>,
         fw_result_chan = \<lparr>observed = [Next v, Complete], isStopped = True, closed = False\<rparr>,
         fw_result = Some v, fw_loading = False,
         fw_error = Some (parse (Instance (CancelledError m))), fw_sub_closed = True\<rparr>)
   \<and> AsyncRequestState_source parse (then_cancels (Message m)) (Next v) AsyncRequestState_new
     = ([\<lparr>seen_result = None, seen_loading = True, seen_error = None, returned = Some (Inr False)\<rparr>],
        \<lparr>as_completed = True,
         as_request = \<lparr>observed = [Next v, Complete], isStopped = True, closed = False\<rparr>,
         as_result_chan = \<lparr>observed = [Next v, Complete], isStopped = True, closed = False\<rparr>,
         as_result = Some v, as_loading = False, as_error = None, as_sub_closed = True\<rparr>)"
  by (simp add: callback_defs)

text \<open>
  Claim C7: for every variant, \<^verbatim>\<open>cancel\<close> after a terminal transition returns false and
  leaves the result and error snapshots as they were. In the AsyncRequestState of
  async-request-state.ts the subscription is closed only after the subject has notified
  its subscribers, so a \<^verbatim>\<open>cancel()\<close> called by the callback of \<^verbatim>\<open>st.finally(...)\<close>, when the
  source has completed, delivered its value or failed and loading already reads false,
  returns true; called by the callback of \<^verbatim>\<open>st.then(...)\<close>, which sees the result set, it
  returns true and sets the error snapshot. The class of part_004 returns false there.
\<close>

theorem cancel_from_callback_after_terminal_returns_true:
  "ForwardingRequestState_source parse (finally_cancels Omitted) Complete ForwardingRequestState_new
     = ([\<lparr>seen_result = None, seen_loading = False, seen_error = None, returned = Some (Inr True)\<rparr>],
        \<lparr>fw_request = \<lparr>observed = [Complete], isStopped = True, closed = False\<rparr>,
         fw_result_chan = \<lparr>observed = [Complete], isStopped = True, closed = False\<rparr>,
         fw_result = None, fw_loading = False, fw_error = None, fw_sub_closed = True\<rparr>)
   \<and> fst (ForwardingRequestState_source parse (finally_cancels Omitted) (Next v) ForwardingRequestState_new)
     = [\<lparr>seen_result = Some v, seen_loading = False, seen_error = None, returned = Some (Inr True)\<rparr>]
   \<and> fst (ForwardingRequestState_source parse (finally_cancels Omitted) (Raise e) ForwardingRequestState_new)
     = [\<lparr>seen_result = None, seen_loading = False, seen_error = Some (parse e),
         returned = Some (Inr True)\<rparr>]
   \<and> fst (ForwardingRequestState_source parse (then_cancels (Message m)) (Next v) ForwardingRequestState_new)
     = [\<lparr>seen_result = Some v, seen_loading = True, seen_error = None, returned = Some (Inr True)\<rparr>]
   \<and> fw_error (snd (ForwardingRequestState_source parse (then_cancels (Message m)) (Next v)
         ForwardingRequestState_new))
     = Some (parse (Instance (CancelledError m)))
   \<and> fst (AsyncRequestState_source parse (finally_cancels Omitted) Complete AsyncRequestState_new)
     = [\<lparr>seen_result = None, seen_loading = True, seen_error = None, returned = Some (Inr False)\<rparr>]"
  by (simp add: callback_defs)

section \<open>The completion latch\<close>

text \<open>
  Once the latch of an object is set, every operation returns without an effect. All
  through a run from outside, an object is either still loading and as constructed (up
  to a subscription closed by a \<^verbatim>\<open>cancel\<close> that threw), or loading is cleared and the
  latch is set.
\<close>

lemma cancel_latched: "latched st \<Longrightarrow> cancel parse r st = (Inr False, st)"
  by (cases st)
     (auto simp: LoadingRequestState_cancel_def plain_defs WritableRequestState_cancel_def
        Subject_complete_def)

lemma attempt_latched: "latched st \<Longrightarrow> attempt parse a st = st"
proof (cases a)
  case (Cancel r)
  assume "latched st"
  then show ?thesis using Cancel by (simp add: cancel_latched)
next
  case (Source n)
  assume "latched st"
  then show ?thesis using Source by (cases st) (simp_all add: plain_defs)
next
  case (SetValue v)
  assume "latched st"
  then show ?thesis using SetValue by (cases st) (simp_all add: setValue_def)
next
  case (SetError e)
  assume "latched st"
  then show ?thesis using SetError by (cases st) (simp_all add: setError_def)
qed

lemma run_latched: "latched st \<Longrightarrow> run parse ops st = st"
  by (induction ops) (simp_all add: attempt_latched)







section \<open>The two AsyncRequestState classes\<close>










section \<open>Cancelling without a reason\<close>




section \<open>ErrorRequestState\<close>

lemma subscribers_general:
  "subscribers ss s =
     (map (\<lambda>k. [Raise (Instance (er_getError s (er_invocations s + k)))]) [0..<length ss],
      s\<lparr>er_invocations := er_invocations s + length ss\<rparr>)"
proof (induction ss arbitrary: s)
  case Nil
  show ?case by simp
next
  case (Cons x ss)
  show ?case
    by (simp add: Cons.IH ErrorRequestState_subscribe_def map_upt_Suc del: upt_Suc)
qed

text \<open>
  Claim C4 as stated, that the factory is invoked exactly once and every observer sees
  that one instance, fails: for a factory that makes a new instance at every call, after
  the construction and the subscriptions of one \<^verbatim>\<open>then\<close> and one \<^verbatim>\<open>catch\<close> the factory
  has been invoked three times, and the two observers were handed the second and the
  third instance while the error signal holds the first.
\<close>

theorem error_factory_counterexample:
  "er_invocations (snd (subscribers [''then'', ''catch''] (errorRequestState (Factory fresh_error)))) = 3
   \<and> fst (subscribers [''then'', ''catch''] (errorRequestState (Factory fresh_error)))
        = [[Raise (Instance (Error ''x''))], [Raise (Instance (Error ''xx''))]]
   \<and> er_error (snd (subscribers [''then'', ''catch''] (errorRequestState (Factory fresh_error)))) = Error ''''"
  by (simp add: errorRequestState_def as_factory_def ErrorRequestState_new_def
      ErrorRequestState_subscribe_def fresh_error_def)

text \<open>
  Claim C4, amended: the factory is invoked once at construction, and the error signal
  holds the instance of that call at every read; each subscription to the request channel
  (each \<^verbatim>\<open>then\<close>, \<^verbatim>\<open>catch\<close>, \<^verbatim>\<open>finally\<close> or \<^verbatim>\<open>subscribe\<close>) invokes it once more and its
  observer is handed the instance of that call. When the facade is given an Error
  instance instead of a factory, every observer and the error signal see that instance.
\<close>

theorem error_factory_invocations:
  "er_invocations (snd (subscribers ss (errorRequestState src))) = 1 + length ss
   \<and> er_error (snd (subscribers ss (errorRequestState src))) = as_factory src 0
   \<and> fst (subscribers ss (errorRequestState src))
        = map (\<lambda>k. [Raise (Instance (as_factory src (Suc k)))]) [0..<length ss]
   \<and> (\<forall>ns \<in> set (fst (subscribers ss (errorRequestState (AnError e)))). ns = [Raise (Instance e)])
   \<and> er_error (snd (subscribers ss (errorRequestState (AnError e)))) = e"
  by (auto simp: subscribers_general errorRequestState_def ErrorRequestState_new_def as_factory_def)

theorem error_factory_invocations_witness:
  "er_invocations (snd (subscribers [''then''] (errorRequestState (Factory fresh_error)))) = 2
   \<and> er_error (snd (subscribers [''then''] (errorRequestState (Factory fresh_error)))) = Error ''''
   \<and> fst (subscribers [''then''] (errorRequestState (Factory fresh_error))) = [[Raise (Instance (Error ''x''))]]
   \<and> fst (subscribers [''then''] (errorRequestState (AnError (Error ''boom'')))) = [[Raise (Instance (Error ''boom''))]]
   \<and> er_error (snd (subscribers [''then''] (errorRequestState (AnError (Error ''boom''))))) = Error ''boom''"
  using error_factory_invocations [of "[''then'']" "Factory fresh_error" "Error ''boom''"]
  by (simp add: as_factory_def fresh_error_def subscribers_general errorRequestState_def ErrorRequestState_new_def)

section \<open>LoadingRequestState\<close>

lemma run_no_cancel_loading:
  "\<forall>op \<in> set ops. \<not> is_cancel op \<Longrightarrow> run parse ops (Loading s) = Loading s"
proof (induction ops)
  case Nil
  show ?case by simp
next
  case (Cons a ops)
  then show ?case by (cases a) simp_all
qed

text \<open>
  Claim C8: the first \<^verbatim>\<open>cancel()\<close> on a LoadingRequestState completes the channel without
  a value and clears loading, yet returns false; before any call of \<^verbatim>\<open>cancel\<close> the
  object is as constructed and loading is true.
\<close>

theorem loading_cancel_clears_and_returns_false:
  "cancel parse r (construct NewLoading)
     = (Inr False, Loading \<lparr>ld_request = \<lparr>observed = [Complete], isStopped = True, closed = False\<rparr>,
                            ld_loading = False\<rparr>)
   \<and> ((\<forall>op \<in> set ops. \<not> is_cancel op) \<longrightarrow>
         run parse ops (construct NewLoading) = construct NewLoading
         \<and> loading_of (run parse ops (construct NewLoading)))"
  by (simp add: run_no_cancel_loading LoadingRequestState_cancel_def LoadingRequestState_new_def
      Subject_new_def Subject_complete_def)

theorem loading_cancel_clears_and_returns_false_witness:
  "\<not> is_cancel (SetValue (1::nat)) \<and> \<not> is_cancel (Source Complete :: nat operation)
   \<and> loading_of (run parseError [SetValue (1::nat), Source Complete] (construct NewLoading))
   \<and> fst (cancel parseError Omitted (construct (NewLoading :: nat ctor))) = Inr False
   \<and> \<not> loading_of (snd (cancel parseError Omitted (construct (NewLoading :: nat ctor))))
   \<and> fst (subscribe (snd (cancel parseError Omitted (construct (NewLoading :: nat ctor))))) = [Complete]"
  using loading_cancel_clears_and_returns_false
    [of parseError Omitted "[SetValue (1::nat), Source Complete]"]
  by (simp add: eval_defs)

section \<open>The tracker and the facade\<close>

text \<open>
  Claim C2: a RequestTracker constructed without an argument, or reset, holds an Empty
  sentinel and \<^verbatim>\<open>reset()\<close> terminates normally. The code does not get there:
  constructors.ts attaches \<^verbatim>\<open>writable\<close> and \<^verbatim>\<open>error\<close> to \<^verbatim>\<open>requestState\<close> but never
  \<^verbatim>\<open>empty\<close>, so \<^verbatim>\<open>requestState.empty()\<close> throws a TypeError, in the constructor called
  without an argument and in \<^verbatim>\<open>reset()\<close> on any tracker and any store.
\<close>

theorem tracker_empty_throws:
  "RequestTracker_new requestState None h = Inl TypeError
   \<and> RequestTracker_reset requestState t h = Inl TypeError"
  by (simp add: RequestTracker_new_def RequestTracker_reset_def call_empty_def requestState_def
      compiled_def)

text \<open>
  Claim C3: the derived signals of a tracker read the request state that \<^verbatim>\<open>current\<close>
  points to, also for a ValueRequestTracker constructed with an initial state. The
  constructor of ValueRequestTracker calls \<^verbatim>\<open>super()\<close> without the argument: with the
  facade as it is the construction throws a TypeError; and with \<^verbatim>\<open>empty\<close> attached to
  the facade, the tracker built around the loading object at reference 0 has that object
  as \<^verbatim>\<open>current\<close>, which is loading, while the tracker's own \<^verbatim>\<open>loading\<close> reads false off
  the Empty state in the cell of the base class.
\<close>

theorem value_tracker_initial_state_ignored:
  "ValueRequestTracker_new requestState (Some 0) loading_heap = Inl TypeError
   \<and> (case ValueRequestTracker_new (requestState(''empty'' \<mapsto> emptyRequestState_fn)) (Some 0) loading_heap of
         Inl e \<Rightarrow> False
       | Inr (t, h) \<Rightarrow>
           ValueRequestTracker_current t = 0
           \<and> read_loading h (ValueRequestTracker_current t) = Some True
           \<and> RequestTracker_loading h t = Some False)"
  by (simp add: ValueRequestTracker_new_def RequestTracker_new_def call_empty_def requestState_def
      compiled_def loading_heap_def alloc_def emptyRequestState_def ValueRequestTracker_current_def
      read_loading_def RequestTracker_loading_def LoadingRequestState_new_def)

section \<open>WritableRequestState\<close>

text \<open>
  Claim C6: \<^verbatim>\<open>setValue(value)\<close> on a not yet completed WritableRequestState emits the value
  on the request channel and on the result channel, which then complete. The code sets
  the latch, emits on \<^verbatim>\<open>_request$\<close> and completes it, sets the result and clears loading,
  but never touches \<^verbatim>\<open>_result$\<close>: after \<^verbatim>\<open>setValue\<close> on a new object the result channel
  is as it was constructed, with no value and not completed, whereas \<^verbatim>\<open>onValue\<close> of
  AsyncRequestState emits the value on its result channel and completes it.
\<close>

theorem setValue_leaves_result_channel:
  "wr_result_chan (setValue v (WritableRequestState_new b)) = Subject_new
   \<and> observed (wr_request (setValue v (WritableRequestState_new b))) = [Next v, Complete]
   \<and> wr_result (setValue v (WritableRequestState_new b)) = Some v
   \<and> \<not> wr_loading (setValue v (WritableRequestState_new b))
   \<and> wr_completed (setValue v (WritableRequestState_new b))
   \<and> observed (as_result_chan (snd (onValue parse cb v AsyncRequestState_new))) = [Next v, Complete]"
  by (cases "on_next cb"; cases "on_complete cb")
     (simp_all add: setValue_def WritableRequestState_new_def callback_defs)

text \<open>
  Claim C9: for every WritableRequestState \<open>w\<close>, \<^verbatim>\<open>w.asReadonly()\<close> is the very same
  object, so at every moment (in every store) each signal and each channel read through
  the facade is the one read through \<open>w\<close>.
\<close>

theorem asReadonly_same_object:
  "asReadonly w = w
   \<and> read_result h (asReadonly w) = read_result h w
   \<and> read_loading h (asReadonly w) = read_loading h w
   \<and> read_error h (asReadonly w) = read_error h w
   \<and> read_failed h (asReadonly w) = read_failed h w
   \<and> read_request h (asReadonly w) = read_request h w
   \<and> read_result_chan h (asReadonly w) = read_result_chan h w"
  by (simp add: asReadonly_def)

end
